theory Spec2Isabelle
  imports Main "HOL-Library.Word" "HOL-Library.Signed_Division"
begin

unbundle bit_operations_syntax

chapter \<open>The identity and batching helpers of the ent backend\<close>

text \<open>
  A shallow embedding of \<^verbatim>\<open>pkg/assembler/backends/ent/backend/helpers.go\<close>:
  the Global-ID codec (\<^verbatim>\<open>toGlobalID\<close>, \<^verbatim>\<open>fromGlobalID\<close>), the content-addressed
  identifier (\<^verbatim>\<open>generateUUIDKey\<close>), the node resolver (\<^verbatim>\<open>getIDfromNode\<close>), the
  predicate helper (\<^verbatim>\<open>optionalPredicate\<close>) and the batching helper (\<^verbatim>\<open>chunk\<close>).

  Go strings are byte sequences, here \<^typ>\<open>string\<close>. A Go function that can panic returns
  a value of \<open>panic + 'a\<close>: \<open>Inl\<close> is the panic, \<open>Inr\<close> the value returned.
\<close>

section \<open>Run-time panics\<close>

datatype panic =
    NilPointerDereference
  | IndexOutOfRange
  | SliceBoundsOutOfRange
  | PanicValue string

text \<open>An index expression \<^verbatim>\<open>xs[i]\<close>: Go panics when the index is out of range.\<close>

definition index_at :: "'a list \<Rightarrow> nat \<Rightarrow> panic + 'a" where
  "index_at xs i = (if i < length xs then Inr (xs ! i) else Inl IndexOutOfRange)"

section \<open>The Global-ID codec\<close>

subsection \<open>The two functions of package \<^verbatim>\<open>strings\<close> the codec calls\<close>

text \<open>
  \<^verbatim>\<open>strings.Join(elems, sep)\<close>: nothing for no element, the element itself for one,
  otherwise the first element followed by \<open>sep\<close> and the next element, for each of the
  others.
\<close>

definition Join :: "string list \<Rightarrow> string \<Rightarrow> string" where
  "Join elems sep =
     (case elems of
        [] \<Rightarrow> []
      | a # rest \<Rightarrow> a @ concat (map (\<lambda>s. sep @ s) rest))"

text \<open>
  \<^verbatim>\<open>strings.Split(s, sep)\<close> is \<^verbatim>\<open>genSplit(s, sep, 0, -1)\<close>. The codec only calls it
  with the one-byte separator \<^verbatim>\<open>":"\<close>, and the model is of that case: for a separator of
  one byte \<^verbatim>\<open>strings.Count\<close> counts the byte and \<^verbatim>\<open>strings.Index\<close> is the offset of its
  first occurrence (\<open>None\<close> for the \<open>-1\<close> of Go).

  \<^verbatim>\<open>genSplit\<close> sets \<open>n\<close> to \<open>Count(s, sep) + 1\<close>, caps it at \<open>len(s) + 1\<close>, and fills
  an array of \<open>n\<close> strings: while fewer than \<open>n - 1\<close> pieces are cut and the separator
  still occurs, the text before it is the next piece and the loop goes on after it; what
  is left is the last piece.
\<close>

fun IndexByte :: "string \<Rightarrow> char \<Rightarrow> nat option" where
  "IndexByte [] c = None"
| "IndexByte (x # xs) c = (if x = c then Some 0 else map_option Suc (IndexByte xs c))"

definition CountByte :: "string \<Rightarrow> char \<Rightarrow> nat" where
  "CountByte s c = length (filter (\<lambda>x. x = c) s)"

fun genSplit_loop :: "nat \<Rightarrow> string \<Rightarrow> char \<Rightarrow> string list" where
  "genSplit_loop 0 s sep = [s]"
| "genSplit_loop (Suc k) s sep =
     (case IndexByte s sep of
        None \<Rightarrow> [s]
      | Some m \<Rightarrow> take m s # genSplit_loop k (drop (m + 1) s) sep)"

definition Split :: "string \<Rightarrow> char \<Rightarrow> string list" where
  "Split s sep =
     (let n = CountByte s sep + 1;
          n = (if n > length s + 1 then length s + 1 else n)
      in genSplit_loop (n - 1) s sep)"

subsection \<open>Encoding and decoding\<close>

text \<open>
  \<^verbatim>\<open>type globalID struct { nodeType string; id string }\<close>. The field \<^verbatim>\<open>id\<close> is
  \<open>id'\<close> here, \<open>id\<close> being the identity function of HOL.
\<close>

record globalID =
  nodeType :: string
  id' :: string

text \<open>
  The separator the codec writes and reads is the one byte \<^verbatim>\<open>":"\<close>. (The constant
  \<^verbatim>\<open>guacIDSplit\<close> of the file is used by neither function.)
\<close>

definition toGlobalID :: "string \<Rightarrow> string \<Rightarrow> string" where
  "toGlobalID nt i = Join [nt, i] '':''"

fun toGlobalIDs :: "string \<Rightarrow> string list \<Rightarrow> string list" where
  "toGlobalIDs nt [] = []"
| "toGlobalIDs nt (i # ids) = Join [nt, i] '':'' # toGlobalIDs nt ids"

text \<open>
  \<^verbatim>\<open>fromGlobalID\<close> splits at every \<^verbatim>\<open>":"\<close>. Exactly two pieces are a node type and an
  identifier; any other number of pieces gives an empty node type and the first piece as
  the identifier.
\<close>

definition fromGlobalID :: "string \<Rightarrow> panic + globalID" where
  "fromGlobalID gID =
     (let idSplit = Split gID (CHR '':'') in
      if length idSplit = 2 then
        (case index_at idSplit 0 of
           Inl e \<Rightarrow> Inl e
         | Inr a \<Rightarrow>
             (case index_at idSplit 1 of
                Inl e \<Rightarrow> Inl e
              | Inr b \<Rightarrow> Inr \<lparr>nodeType = a, id' = b\<rparr>))
      else
        (case index_at idSplit 0 of
           Inl e \<Rightarrow> Inl e
         | Inr a \<Rightarrow> Inr \<lparr>nodeType = [], id' = a\<rparr>))"

section \<open>The content-addressed identifier\<close>

text \<open>
  \<^verbatim>\<open>generateUUIDKey(data)\<close> is \<^verbatim>\<open>uuid.NewHash(sha256.New(), uuid.NameSpaceDNS, data, 5)\<close>.
  Both packages are libraries the repository imports; they are modelled from their
  documented behaviour, so that the identifier is a closed, executable function of the bytes.
\<close>

type_synonym byte = "8 word"

subsection \<open>SHA-256, as \<^verbatim>\<open>crypto/sha256\<close> computes it (FIPS 180-4)\<close>

definition rotr :: "nat \<Rightarrow> 32 word \<Rightarrow> 32 word" where
  "rotr n x = word_rotr n x"

definition Ch :: "32 word \<Rightarrow> 32 word \<Rightarrow> 32 word \<Rightarrow> 32 word" where
  "Ch x y z = (x AND y) XOR (NOT x AND z)"

definition Maj :: "32 word \<Rightarrow> 32 word \<Rightarrow> 32 word \<Rightarrow> 32 word" where
  "Maj x y z = (x AND y) XOR (x AND z) XOR (y AND z)"

definition Sigma0 :: "32 word \<Rightarrow> 32 word" where
  "Sigma0 x = rotr 2 x XOR rotr 13 x XOR rotr 22 x"

definition Sigma1 :: "32 word \<Rightarrow> 32 word" where
  "Sigma1 x = rotr 6 x XOR rotr 11 x XOR rotr 25 x"

definition sigma0 :: "32 word \<Rightarrow> 32 word" where
  "sigma0 x = rotr 7 x XOR rotr 18 x XOR drop_bit 3 x"

definition sigma1 :: "32 word \<Rightarrow> 32 word" where
  "sigma1 x = rotr 17 x XOR rotr 19 x XOR drop_bit 10 x"

definition sha256_K :: "32 word list" where
  "sha256_K =
    [0x428A2F98, 0x71374491, 0xB5C0FBCF, 0xE9B5DBA5, 0x3956C25B, 0x59F111F1, 0x923F82A4,
     0xAB1C5ED5, 0xD807AA98, 0x12835B01, 0x243185BE, 0x550C7DC3, 0x72BE5D74, 0x80DEB1FE,
     0x9BDC06A7, 0xC19BF174, 0xE49B69C1, 0xEFBE4786, 0x0FC19DC6, 0x240CA1CC, 0x2DE92C6F,
     0x4A7484AA, 0x5CB0A9DC, 0x76F988DA, 0x983E5152, 0xA831C66D, 0xB00327C8, 0xBF597FC7,
     0xC6E00BF3, 0xD5A79147, 0x06CA6351, 0x14292967, 0x27B70A85, 0x2E1B2138, 0x4D2C6DFC,
     0x53380D13, 0x650A7354, 0x766A0ABB, 0x81C2C92E, 0x92722C85, 0xA2BFE8A1, 0xA81A664B,
     0xC24B8B70, 0xC76C51A3, 0xD192E819, 0xD6990624, 0xF40E3585, 0x106AA070, 0x19A4C116,
     0x1E376C08, 0x2748774C, 0x34B0BCB5, 0x391C0CB3, 0x4ED8AA4A, 0x5B9CCA4F, 0x682E6FF3,
     0x748F82EE, 0x78A5636F, 0x84C87814, 0x8CC70208, 0x90BEFFFA, 0xA4506CEB, 0xBEF9A3F7,
     0xC67178F2]"

definition sha256_init :: "32 word list" where
  "sha256_init =
    [0x6A09E667, 0xBB67AE85, 0x3C6EF372, 0xA54FF53A, 0x510E527F, 0x9B05688C, 0x1F83D9AB,
     0x5BE0CD19]"

text \<open>Big-endian reading of bytes into a word, and writing of a word as \<open>n\<close> bytes.\<close>

definition be_word :: "byte list \<Rightarrow> 32 word" where
  "be_word bs = foldl (\<lambda>w b. push_bit 8 w OR ucast b) 0 bs"

definition be_bytes :: "nat \<Rightarrow> 'a::len word \<Rightarrow> byte list" where
  "be_bytes n w = map (\<lambda>i. ucast (drop_bit (8 * (n - 1 - i)) w)) [0..<n]"

fun block_words :: "nat \<Rightarrow> byte list \<Rightarrow> 32 word list" where
  "block_words 0 bs = []"
| "block_words (Suc n) bs = be_word (take 4 bs) # block_words n (drop 4 bs)"

text \<open>The message schedule: 48 more words after the 16 of the block.\<close>

fun schedule :: "nat \<Rightarrow> 32 word list \<Rightarrow> 32 word list" where
  "schedule 0 w = w"
| "schedule (Suc n) w =
     (let t = length w
      in schedule n
           (w @ [sigma1 (w ! (t - 2)) + w ! (t - 7) + sigma0 (w ! (t - 15)) + w ! (t - 16)]))"

fun round256 :: "32 word list \<Rightarrow> 32 word \<times> 32 word \<Rightarrow> 32 word list" where
  "round256 [a, b, c, d, e, f, g, h] (k, w) =
     (let t1 = h + Sigma1 e + Ch e f g + k + w;
          t2 = Sigma0 a + Maj a b c
      in [t1 + t2, a, b, c, d + t1, e, f, g])"
| "round256 s (k, w) = s"

definition sha256_block :: "32 word list \<Rightarrow> byte list \<Rightarrow> 32 word list" where
  "sha256_block h p =
     map2 (+) h (foldl round256 h (zip sha256_K (schedule 48 (block_words 16 p))))"

fun sha256_blocks :: "nat \<Rightarrow> 32 word list \<Rightarrow> byte list \<Rightarrow> 32 word list" where
  "sha256_blocks 0 h p = h"
| "sha256_blocks (Suc n) h p = sha256_blocks n (sha256_block h (take 64 p)) (drop 64 p)"

text \<open>
  The padding \<^verbatim>\<open>checkSum\<close> writes after \<open>len\<close> bytes: the byte \<open>0x80\<close>, zero bytes up to
  56 modulo 64, and the length in bits as a 64-bit integer (\<^verbatim>\<open>len<<3\<close> on \<^verbatim>\<open>uint64\<close>).
\<close>

definition sha256_padding :: "nat \<Rightarrow> byte list" where
  "sha256_padding len =
     (let t = (if len mod 64 < 56 then 56 - len mod 64 else 64 + 56 - len mod 64)
      in 0x80 # replicate (t - 1) 0 @ be_bytes 8 (push_bit 3 (word_of_nat len :: 64 word)))"

definition sha256_Sum :: "byte list \<Rightarrow> byte list" where
  "sha256_Sum written =
     (let p = written @ sha256_padding (length written)
      in concat (map (be_bytes 4) (sha256_blocks (length p div 64) sha256_init p)))"

subsection \<open>The \<^verbatim>\<open>hash.Hash\<close> that \<^verbatim>\<open>sha256.New()\<close> returns\<close>

text \<open>
  The state of the hash is the bytes written to it since it was created or last reset:
  \<^verbatim>\<open>Reset\<close> forgets them, \<^verbatim>\<open>Write\<close> adds to them, \<^verbatim>\<open>Sum(b)\<close> appends their digest to
  \<open>b\<close> and leaves the state as it is.
\<close>

type_synonym digest = "byte list"

definition sha256_New :: digest where
  "sha256_New = []"

definition Reset :: "digest \<Rightarrow> digest" where
  "Reset h = []"

definition Write :: "digest \<Rightarrow> byte list \<Rightarrow> digest" where
  "Write h p = h @ p"

definition Sum :: "digest \<Rightarrow> byte list \<Rightarrow> byte list" where
  "Sum h b = b @ sha256_Sum h"

subsection \<open>\<^verbatim>\<open>uuid.NewHash\<close> and \<^verbatim>\<open>generateUUIDKey\<close>\<close>

text \<open>
  \<^verbatim>\<open>type UUID [16]byte\<close>. \<^verbatim>\<open>copy(uuid[:], s)\<close> copies the first 16 bytes of \<open>s\<close> into the
  zeroed array (fewer when \<open>s\<close> is shorter).
\<close>

type_synonym UUID = "byte list"

definition NameSpaceDNS :: UUID where
  "NameSpaceDNS =
     [0x6B, 0xA7, 0xB8, 0x10, 0x9D, 0xAD, 0x11, 0xD1,
      0x80, 0xB4, 0x00, 0xC0, 0x4F, 0xD4, 0x30, 0xC8]"

definition copy16 :: "byte list \<Rightarrow> UUID" where
  "copy16 s = take 16 s @ replicate (16 - length s) 0"

definition NewHash :: "digest \<Rightarrow> UUID \<Rightarrow> byte list \<Rightarrow> int \<Rightarrow> UUID" where
  "NewHash h space data version =
     (let h = Reset h;
          h = Write h space;
          h = Write h data;
          s = Sum h [];
          uuid = copy16 s;
          uuid = uuid[6 := (uuid ! 6 AND 0x0F) OR word_of_int (push_bit 4 (version AND 0xF))];
          uuid = uuid[8 := (uuid ! 8 AND 0x3F) OR 0x80]
      in uuid)"

definition generateUUIDKey :: "byte list \<Rightarrow> UUID" where
  "generateUUIDKey data = NewHash sha256_New NameSpaceDNS data 5"

section \<open>The node resolver\<close>

subsection \<open>Evaluating Go expressions that can panic\<close>

text \<open>
  Selecting a field through a pointer panics on \<^verbatim>\<open>nil\<close>; a pointer is an \<open>option\<close>.
  \<open>and_then\<close> sequences two steps; \<open>cond_and\<close> is \<^verbatim>\<open>&&\<close>, which does not evaluate its right
  operand when the left one is false; \<open>branch\<close> is \<^verbatim>\<open>if c { a } else { b }\<close>;
  \<open>elem0 m\<close> is \<^verbatim>\<open>m[0]\<close> followed by a field selection, i.e. the index expression and then
  the dereference of the pointer found there; \<open>nonempty m\<close> is \<^verbatim>\<open>len(m) > 0\<close>.
\<close>

definition deref :: "'a option \<Rightarrow> panic + 'a" where
  "deref p = (case p of None \<Rightarrow> Inl NilPointerDereference | Some x \<Rightarrow> Inr x)"

definition and_then :: "panic + 'a \<Rightarrow> ('a \<Rightarrow> panic + 'b) \<Rightarrow> panic + 'b" where
  "and_then m f = (case m of Inl e \<Rightarrow> Inl e | Inr x \<Rightarrow> f x)"

definition cond_and :: "panic + bool \<Rightarrow> panic + bool \<Rightarrow> panic + bool" where
  "cond_and a b = (case a of Inl e \<Rightarrow> Inl e | Inr c \<Rightarrow> if c then b else Inr False)"

definition branch :: "panic + bool \<Rightarrow> panic + 'a \<Rightarrow> panic + 'a \<Rightarrow> panic + 'a" where
  "branch c a b = (case c of Inl e \<Rightarrow> Inl e | Inr t \<Rightarrow> if t then a else b)"

definition elem0 :: "panic + 'a option list \<Rightarrow> panic + 'a" where
  "elem0 m = and_then (and_then m (\<lambda>l. index_at l 0)) deref"

definition nonempty :: "panic + 'a list \<Rightarrow> panic + bool" where
  "nonempty m = and_then m (\<lambda>l. Inr (length l > 0))"

subsection \<open>The node types\<close>

text \<open>
  Modelled from the spec: the structs of package \<^verbatim>\<open>pkg/assembler/graphql/model\<close>, whose
  declarations are not among the sources. The spec gives their shape: a Package is a
  chain Namespace, Name, Version, a Source a chain Namespace, Name, a Vulnerability has
  a list of VulnerabilityID records, every level possibly empty, and every other variant
  carries its identifier directly. The fields are the ones \<^verbatim>\<open>getIDfromNode\<close> reads, under the
  names it reads them by (\<^verbatim>\<open>ID\<close>, \<^verbatim>\<open>Namespaces\<close>, \<^verbatim>\<open>Names\<close>, \<^verbatim>\<open>Versions\<close>,
  \<^verbatim>\<open>VulnerabilityIDs\<close>), prefixed with the struct's name. The nested collections are slices
  of pointers, so an element may be \<^verbatim>\<open>nil\<close>; a model whose slices hold the structs
  themselves is the special case without \<open>None\<close>.
\<close>

record PackageVersion =
  PackageVersion_ID :: string

record PackageName =
  PackageName_ID :: string
  PackageName_Versions :: "PackageVersion option list"

record PackageNamespace =
  PackageNamespace_ID :: string
  PackageNamespace_Names :: "PackageName option list"

record Package =
  Package_ID :: string
  Package_Namespaces :: "PackageNamespace option list"

record SourceName =
  SourceName_ID :: string

record SourceNamespace =
  SourceNamespace_ID :: string
  SourceNamespace_Names :: "SourceName option list"

record Source =
  Source_ID :: string
  Source_Namespaces :: "SourceNamespace option list"

record VulnerabilityID =
  VulnerabilityID_ID :: string

record Vulnerability =
  Vulnerability_ID :: string
  Vulnerability_VulnerabilityIDs :: "VulnerabilityID option list"

text \<open>The struct of every variant with a flat identifier: its field \<^verbatim>\<open>ID\<close>.\<close>

record Entity =
  Entity_ID :: string

text \<open>
  A value of the interface \<^verbatim>\<open>model.Node\<close>, by its dynamic type: one constructor for each
  pointer type the type switch names, holding the pointer (\<open>None\<close> is a \<^verbatim>\<open>nil\<close> pointer of
  that type); \<open>NilNode\<close> is the \<^verbatim>\<open>nil\<close> interface value; \<open>Unregistered\<close> is a value of any
  other dynamic type, given by the text \<^verbatim>\<open>%v\<close> prints for it.
\<close>

datatype Node =
    NilNode
  | Package_ptr "Package option"
  | Artifact_ptr "Entity option"
  | Builder_ptr "Entity option"
  | Source_ptr "Source option"
  | Vulnerability_ptr "Vulnerability option"
  | License_ptr "Entity option"
  | CertifyBad_ptr "Entity option"
  | CertifyGood_ptr "Entity option"
  | CertifyLegal_ptr "Entity option"
  | CertifyScorecard_ptr "Entity option"
  | CertifyVEXStatement_ptr "Entity option"
  | CertifyVuln_ptr "Entity option"
  | HashEqual_ptr "Entity option"
  | HasMetadata_ptr "Entity option"
  | HasSbom_ptr "Entity option"
  | HasSlsa_ptr "Entity option"
  | HasSourceAt_ptr "Entity option"
  | IsDependency_ptr "Entity option"
  | IsOccurrence_ptr "Entity option"
  | PkgEqual_ptr "Entity option"
  | PointOfContact_ptr "Entity option"
  | VulnEqual_ptr "Entity option"
  | VulnerabilityMetadata_ptr "Entity option"
  | Unregistered string

subsection \<open>\<^verbatim>\<open>getIDfromNode\<close>\<close>

text \<open>
  The result \<^verbatim>\<open>(string, error)\<close>: the error is \<open>None\<close> for \<^verbatim>\<open>nil\<close> and its message
  otherwise.
\<close>

type_synonym id_or_error = "string \<times> string option"

text \<open>The expressions \<^verbatim>\<open>v.Namespaces\<close>, \<^verbatim>\<open>v.Namespaces[0].Names\<close> and
  \<^verbatim>\<open>v.Namespaces[0].Names[0].Versions\<close> of the Package case.\<close>

definition Namespaces_of :: "Package option \<Rightarrow> panic + PackageNamespace option list" where
  "Namespaces_of v = and_then (deref v) (\<lambda>p. Inr (Package_Namespaces p))"

definition Names_of :: "Package option \<Rightarrow> panic + PackageName option list" where
  "Names_of v = and_then (elem0 (Namespaces_of v)) (\<lambda>ns. Inr (PackageNamespace_Names ns))"

definition Versions_of :: "Package option \<Rightarrow> panic + PackageVersion option list" where
  "Versions_of v = and_then (elem0 (Names_of v)) (\<lambda>n. Inr (PackageName_Versions n))"

definition getID_Package :: "Package option \<Rightarrow> panic + id_or_error" where
  "getID_Package v =
     branch (cond_and (Inr (v \<noteq> None)) (cond_and (nonempty (Namespaces_of v))
              (cond_and (nonempty (Names_of v)) (nonempty (Versions_of v)))))
       (and_then (elem0 (Versions_of v)) (\<lambda>x. Inr (PackageVersion_ID x, None)))
    (branch (cond_and (Inr (v \<noteq> None)) (cond_and (nonempty (Namespaces_of v))
              (nonempty (Names_of v))))
       (and_then (elem0 (Names_of v)) (\<lambda>x. Inr (PackageName_ID x, None)))
    (branch (cond_and (Inr (v \<noteq> None)) (nonempty (Namespaces_of v)))
       (and_then (elem0 (Namespaces_of v)) (\<lambda>x. Inr (PackageNamespace_ID x, None)))
       (and_then (deref v) (\<lambda>p. Inr (Package_ID p, None)))))"

definition SrcNamespaces_of :: "Source option \<Rightarrow> panic + SourceNamespace option list" where
  "SrcNamespaces_of v = and_then (deref v) (\<lambda>p. Inr (Source_Namespaces p))"

definition SrcNames_of :: "Source option \<Rightarrow> panic + SourceName option list" where
  "SrcNames_of v = and_then (elem0 (SrcNamespaces_of v)) (\<lambda>ns. Inr (SourceNamespace_Names ns))"

definition getID_Source :: "Source option \<Rightarrow> panic + id_or_error" where
  "getID_Source v =
     branch (cond_and (Inr (v \<noteq> None)) (cond_and (nonempty (SrcNamespaces_of v))
              (nonempty (SrcNames_of v))))
       (and_then (elem0 (SrcNames_of v)) (\<lambda>x. Inr (SourceName_ID x, None)))
    (branch (cond_and (Inr (v \<noteq> None)) (nonempty (SrcNamespaces_of v)))
       (and_then (elem0 (SrcNamespaces_of v)) (\<lambda>x. Inr (SourceNamespace_ID x, None)))
       (and_then (deref v) (\<lambda>p. Inr (Source_ID p, None))))"

definition VulnerabilityIDs_of :: "Vulnerability option \<Rightarrow> panic + VulnerabilityID option list" where
  "VulnerabilityIDs_of v = and_then (deref v) (\<lambda>p. Inr (Vulnerability_VulnerabilityIDs p))"

definition getID_Vulnerability :: "Vulnerability option \<Rightarrow> panic + id_or_error" where
  "getID_Vulnerability v =
     branch (nonempty (VulnerabilityIDs_of v))
       (and_then (elem0 (VulnerabilityIDs_of v)) (\<lambda>x. Inr (VulnerabilityID_ID x, None)))
       (and_then (deref v) (\<lambda>p. Inr (Vulnerability_ID p, None)))"

text \<open>\<^verbatim>\<open>return v.ID, nil\<close>, the body of every other case.\<close>

definition getID_flat :: "Entity option \<Rightarrow> panic + id_or_error" where
  "getID_flat v = and_then (deref v) (\<lambda>p. Inr (Entity_ID p, None))"

text \<open>\<^verbatim>\<open>fmt.Errorf("unknown type: %v", v)\<close>, given what \<^verbatim>\<open>%v\<close> prints for \<open>v\<close>.\<close>

definition Errorf_unknown_type :: "string \<Rightarrow> string" where
  "Errorf_unknown_type rendered = ''unknown type: '' @ rendered"

fun getIDfromNode :: "Node \<Rightarrow> panic + id_or_error" where
  "getIDfromNode (Package_ptr v) = getID_Package v"
| "getIDfromNode (Artifact_ptr v) = getID_flat v"
| "getIDfromNode (Builder_ptr v) = getID_flat v"
| "getIDfromNode (Source_ptr v) = getID_Source v"
| "getIDfromNode (Vulnerability_ptr v) = getID_Vulnerability v"
| "getIDfromNode (License_ptr v) = getID_flat v"
| "getIDfromNode (CertifyBad_ptr v) = getID_flat v"
| "getIDfromNode (CertifyGood_ptr v) = getID_flat v"
| "getIDfromNode (CertifyLegal_ptr v) = getID_flat v"
| "getIDfromNode (CertifyScorecard_ptr v) = getID_flat v"
| "getIDfromNode (CertifyVEXStatement_ptr v) = getID_flat v"
| "getIDfromNode (CertifyVuln_ptr v) = getID_flat v"
| "getIDfromNode (HashEqual_ptr v) = getID_flat v"
| "getIDfromNode (HasMetadata_ptr v) = getID_flat v"
| "getIDfromNode (HasSbom_ptr v) = getID_flat v"
| "getIDfromNode (HasSlsa_ptr v) = getID_flat v"
| "getIDfromNode (HasSourceAt_ptr v) = getID_flat v"
| "getIDfromNode (IsDependency_ptr v) = getID_flat v"
| "getIDfromNode (IsOccurrence_ptr v) = getID_flat v"
| "getIDfromNode (PkgEqual_ptr v) = getID_flat v"
| "getIDfromNode (PointOfContact_ptr v) = getID_flat v"
| "getIDfromNode (VulnEqual_ptr v) = getID_flat v"
| "getIDfromNode (VulnerabilityMetadata_ptr v) = getID_flat v"
| "getIDfromNode NilNode = Inr ('''', Some (Errorf_unknown_type ''<nil>''))"
| "getIDfromNode (Unregistered rendered) = Inr ('''', Some (Errorf_unknown_type rendered))"


section \<open>The predicate helper\<close>

text \<open>
  A predicate is a Go function \<^verbatim>\<open>func(*sql.Selector)\<close>: it acts on the selector it is
  handed by adding its conditions to it. Here it is the function from the selector before
  the call to the selector after it; the selector type of the query builder stays open.
  \<^verbatim>\<open>NoOpSelector()\<close> returns the function with the empty body.
\<close>

type_synonym 's Predicate = "'s \<Rightarrow> 's"

definition NoOpSelector :: "'s Predicate" where
  "NoOpSelector = (\<lambda>s. s)"

text \<open>
  The builder \<^verbatim>\<open>fn\<close> is any Go function: calling it may do more than return a predicate.
  Whatever it can read or change is the state \<open>w\<close>, which a call takes and gives back; a
  call that is not made leaves \<open>w\<close> as it was.
\<close>

definition optionalPredicate ::
  "'a option \<Rightarrow> ('a \<Rightarrow> 'w \<Rightarrow> 's Predicate \<times> 'w) \<Rightarrow> 'w \<Rightarrow> 's Predicate \<times> 'w" where
  "optionalPredicate value' fn w =
     (case value' of
        None \<Rightarrow> (NoOpSelector, w)
      | Some v \<Rightarrow> fn v w)"

section \<open>The batching helper\<close>

text \<open>
  Go's \<^verbatim>\<open>int\<close> has 64 bits on the platforms the backend runs on: \<open>wrap64\<close> is the value a
  result takes there. \<^verbatim>\<open>/\<close> and \<^verbatim>\<open>%\<close> truncate towards zero (\<open>sdiv\<close>, \<open>smod\<close>).
\<close>

definition wrap64 :: "int \<Rightarrow> int" where
  "wrap64 x = (x + 2 ^ 63) mod 2 ^ 64 - 2 ^ 63"

text \<open>
  A slice expression \<^verbatim>\<open>xs[lo:hi]\<close> panics unless \<open>0 \<le> lo \<le> hi \<le> cap(xs)\<close>. The
  list is the slice with its capacity equal to its length (in \<^verbatim>\<open>chunk\<close> the upper index
  never exceeds the length).
\<close>

definition slice :: "'a list \<Rightarrow> int \<Rightarrow> int \<Rightarrow> panic + 'a list" where
  "slice xs lo hi =
     (if 0 \<le> lo \<and> lo \<le> hi \<and> hi \<le> int (length xs)
      then Inr (take (nat (hi - lo)) (drop (nat lo) xs))
      else Inl SliceBoundsOutOfRange)"

text \<open>
  The loop \<^verbatim>\<open>for i := 0; i < chunksNum; i++\<close> of \<^verbatim>\<open>chunk\<close>, from the state
  \<open>(i, result)\<close>. The increment cannot overflow, since \<open>i < chunksNum\<close>; the two
  products can. \<^verbatim>\<open>make([][]T, 0, chunksNum)\<close> only reserves room for \<open>result\<close>: it
  is the empty list, and memory has no limit here. (\<open>size\<close> and \<open>last\<close> are constants
  of HOL, hence the primes.)
\<close>

function chunk_loop ::
  "'a list \<Rightarrow> int \<Rightarrow> int \<Rightarrow> int \<Rightarrow> 'a list list \<Rightarrow> panic + 'a list list" where
  "chunk_loop collection size' chunksNum i result =
     (if i < chunksNum then
        (let last' = wrap64 ((i + 1) * size');
             last' = (if last' > int (length collection) then int (length collection) else last')
         in case slice collection (wrap64 (i * size')) last' of
              Inl e \<Rightarrow> Inl e
            | Inr c \<Rightarrow> chunk_loop collection size' chunksNum (i + 1) (result @ [c]))
      else Inr result)"
  by pat_completeness auto
termination
  by (relation "measure (\<lambda>(collection, size', chunksNum, i, result). nat (chunksNum - i))") auto

declare chunk_loop.simps [simp del]

definition chunk :: "'a list \<Rightarrow> int \<Rightarrow> panic + 'a list list" where
  "chunk collection size' =
     (if size' \<le> 0 then Inl (PanicValue ''Second parameter must be greater than 0'')
      else
        (let chunksNum = int (length collection) sdiv size';
             chunksNum = (if int (length collection) smod size' \<noteq> 0
                          then wrap64 (chunksNum + 1) else chunksNum)
         in chunk_loop collection size' chunksNum 0 []))"

section \<open>Notions the statements use\<close>

text \<open>The number of groups: the quotient, and one more when there is a remainder.\<close>

definition chunks_num :: "int \<Rightarrow> int \<Rightarrow> int" where
  "chunks_num n s = n div s + (if n mod s \<noteq> 0 then 1 else 0)"


text \<open>
  The pointers \<^verbatim>\<open>getIDfromNode\<close> follows are not \<^verbatim>\<open>nil\<close>: the pointer of the node itself
  and, for a Package, a Source and a Vulnerability, the first element of each collection
  on the way down, as far as the collections are not empty.
\<close>

definition valid_Package :: "Package option \<Rightarrow> bool" where
  "valid_Package v =
     (case v of
        None \<Rightarrow> False
      | Some p \<Rightarrow>
          (case Package_Namespaces p of
             [] \<Rightarrow> True
           | None # _ \<Rightarrow> False
           | Some ns # _ \<Rightarrow>
               (case PackageNamespace_Names ns of
                  [] \<Rightarrow> True
                | None # _ \<Rightarrow> False
                | Some n # _ \<Rightarrow>
                    (case PackageName_Versions n of
                       [] \<Rightarrow> True
                     | None # _ \<Rightarrow> False
                     | Some _ # _ \<Rightarrow> True))))"

definition valid_Source :: "Source option \<Rightarrow> bool" where
  "valid_Source v =
     (case v of
        None \<Rightarrow> False
      | Some p \<Rightarrow>
          (case Source_Namespaces p of
             [] \<Rightarrow> True
           | None # _ \<Rightarrow> False
           | Some ns # _ \<Rightarrow>
               (case SourceNamespace_Names ns of
                  [] \<Rightarrow> True
                | None # _ \<Rightarrow> False
                | Some _ # _ \<Rightarrow> True)))"

definition valid_Vulnerability :: "Vulnerability option \<Rightarrow> bool" where
  "valid_Vulnerability v =
     (case v of
        None \<Rightarrow> False
      | Some p \<Rightarrow>
          (case Vulnerability_VulnerabilityIDs p of
             [] \<Rightarrow> True
           | None # _ \<Rightarrow> False
           | Some _ # _ \<Rightarrow> True))"

fun pointers_valid :: "Node \<Rightarrow> bool" where
  "pointers_valid (Package_ptr v) = valid_Package v"
| "pointers_valid (Artifact_ptr v) = (v \<noteq> None)"
| "pointers_valid (Builder_ptr v) = (v \<noteq> None)"
| "pointers_valid (Source_ptr v) = valid_Source v"
| "pointers_valid (Vulnerability_ptr v) = valid_Vulnerability v"
| "pointers_valid (License_ptr v) = (v \<noteq> None)"
| "pointers_valid (CertifyBad_ptr v) = (v \<noteq> None)"
| "pointers_valid (CertifyGood_ptr v) = (v \<noteq> None)"
| "pointers_valid (CertifyLegal_ptr v) = (v \<noteq> None)"
| "pointers_valid (CertifyScorecard_ptr v) = (v \<noteq> None)"
| "pointers_valid (CertifyVEXStatement_ptr v) = (v \<noteq> None)"
| "pointers_valid (CertifyVuln_ptr v) = (v \<noteq> None)"
| "pointers_valid (HashEqual_ptr v) = (v \<noteq> None)"
| "pointers_valid (HasMetadata_ptr v) = (v \<noteq> None)"
| "pointers_valid (HasSbom_ptr v) = (v \<noteq> None)"
| "pointers_valid (HasSlsa_ptr v) = (v \<noteq> None)"
| "pointers_valid (HasSourceAt_ptr v) = (v \<noteq> None)"
| "pointers_valid (IsDependency_ptr v) = (v \<noteq> None)"
| "pointers_valid (IsOccurrence_ptr v) = (v \<noteq> None)"
| "pointers_valid (PkgEqual_ptr v) = (v \<noteq> None)"
| "pointers_valid (PointOfContact_ptr v) = (v \<noteq> None)"
| "pointers_valid (VulnEqual_ptr v) = (v \<noteq> None)"
| "pointers_valid (VulnerabilityMetadata_ptr v) = (v \<noteq> None)"
| "pointers_valid NilNode = True"
| "pointers_valid (Unregistered rendered) = True"

text \<open>The dynamic type is one the type switch names.\<close>

definition known_variant :: "Node \<Rightarrow> bool" where
  "known_variant node = (case node of NilNode \<Rightarrow> False | Unregistered _ \<Rightarrow> False | _ \<Rightarrow> True)"


chapter \<open>Properties\<close>

section \<open>Splitting at a byte\<close>

lemma IndexByte_absent: "c \<notin> set s \<Longrightarrow> IndexByte s c = None"
  by (induction s) auto

lemma IndexByte_first: "c \<notin> set a \<Longrightarrow> IndexByte (a @ c # b) c = Some (length a)"
  by (induction a) auto

lemma CountByte_absent: "c \<notin> set s \<Longrightarrow> CountByte s c = 0"
  by (induction s) (auto simp: CountByte_def)

lemma CountByte_first: "c \<notin> set a \<Longrightarrow> CountByte (a @ c # b) c = Suc (CountByte b c)"
  by (induction a) (auto simp: CountByte_def)

lemma CountByte_le_length: "CountByte s c \<le> length s"
  by (simp add: CountByte_def)

lemma CountByte_zero_iff: "CountByte s c = 0 \<longleftrightarrow> c \<notin> set s"
  by (induction s) (auto simp: CountByte_def)

text \<open>The cap of \<^verbatim>\<open>genSplit\<close> never applies: a byte occurs at most \<open>len(s)\<close> times.\<close>

lemma Split_loop: "Split s c = genSplit_loop (CountByte s c) s c"
  using CountByte_le_length [of s c] by (simp add: Split_def Let_def)

lemma Split_absent: "c \<notin> set s \<Longrightarrow> Split s c = [s]"
  by (simp add: Split_loop CountByte_absent)

lemma Split_first: "c \<notin> set a \<Longrightarrow> Split (a @ c # b) c = a # Split b c"
  by (simp add: Split_loop CountByte_first IndexByte_first)

lemma first_occurrence:
  assumes "c \<in> set s"
  shows "s = takeWhile (\<lambda>x. x \<noteq> c) s @ c # drop 1 (dropWhile (\<lambda>x. x \<noteq> c) s)"
    and "c \<notin> set (takeWhile (\<lambda>x. x \<noteq> c) s)"
proof -
  from assms have "dropWhile (\<lambda>x. x \<noteq> c) s \<noteq> []"
    by auto
  moreover have "\<not> (hd (dropWhile (\<lambda>x. x \<noteq> c) s) \<noteq> c)" if "dropWhile (\<lambda>x. x \<noteq> c) s \<noteq> []"
    using that by (rule hd_dropWhile)
  ultimately have "dropWhile (\<lambda>x. x \<noteq> c) s = c # drop 1 (dropWhile (\<lambda>x. x \<noteq> c) s)"
    by (cases "dropWhile (\<lambda>x. x \<noteq> c) s") auto
  then show "s = takeWhile (\<lambda>x. x \<noteq> c) s @ c # drop 1 (dropWhile (\<lambda>x. x \<noteq> c) s)"
    by (metis takeWhile_dropWhile_id)
  show "c \<notin> set (takeWhile (\<lambda>x. x \<noteq> c) s)"
    by (auto dest: set_takeWhileD)
qed

lemma Split_length: "length (Split s c) = Suc (CountByte s c)"
proof (induction "length s" arbitrary: s rule: less_induct)
  case less
  show ?case
  proof (cases "c \<in> set s")
    case False
    then show ?thesis by (simp add: Split_absent CountByte_absent)
  next
    case True
    then obtain a b where s: "s = a @ c # b" and a: "c \<notin> set a"
      using first_occurrence [of c s] by blast
    have "length b < length s" using s by simp
    then have "length (Split b c) = Suc (CountByte b c)" by (rule less)
    then show ?thesis using a by (simp add: s Split_first CountByte_first)
  qed
qed

lemma Split_nonempty: "Split s c \<noteq> []"
  using Split_length [of s c] by auto

lemma hd_Split: "hd (Split s c) = takeWhile (\<lambda>x. x \<noteq> c) s"
proof (cases "c \<in> set s")
  case False
  then have "takeWhile (\<lambda>x. x \<noteq> c) s = s"
    by (induction s) auto
  moreover have "Split s c = [s]"
    using False by (rule Split_absent)
  ultimately show ?thesis
    by (metis list.sel(1))
next
  case True
  from first_occurrence [OF True] show ?thesis
    by (metis Split_first list.sel(1))
qed

section \<open>The codec\<close>

lemma toGlobalID_eq: "toGlobalID nt i = nt @ CHR '':'' # i"
  by (simp add: toGlobalID_def Join_def)

lemma fromGlobalID_two:
  assumes "Split gID (CHR '':'') = [a, b]"
  shows "fromGlobalID gID = Inr \<lparr>nodeType = a, id' = b\<rparr>"
  using assms by (simp add: fromGlobalID_def index_at_def)

lemma fromGlobalID_other:
  assumes "length (Split gID (CHR '':'')) \<noteq> 2"
  shows "fromGlobalID gID = Inr \<lparr>nodeType = [], id' = takeWhile (\<lambda>x. x \<noteq> CHR '':'') gID\<rparr>"
proof -
  have "index_at (Split gID (CHR '':'')) 0 = Inr (hd (Split gID (CHR '':'')))"
    using Split_nonempty [of gID "CHR '':''"]
    by (cases "Split gID (CHR '':'')") (simp_all add: index_at_def)
  with assms show ?thesis
    by (simp add: fromGlobalID_def hd_Split)
qed

text \<open>
  Claim C1. Round trip: for every node type and every local identifier, neither holding
  the separator \<^verbatim>\<open>":"\<close>, decoding the encoded pair returns without a panic and gives
  back exactly the pair.
\<close>

theorem fromGlobalID_toGlobalID:
  assumes "CHR '':'' \<notin> set nt" and "CHR '':'' \<notin> set localID"
  shows "fromGlobalID (toGlobalID nt localID) = Inr \<lparr>nodeType = nt, id' = localID\<rparr>"
proof -
  have "Split (nt @ CHR '':'' # localID) (CHR '':'') = [nt, localID]"
    using assms by (simp add: Split_first Split_absent)
  then show ?thesis
    by (simp add: toGlobalID_eq fromGlobalID_two)
qed

theorem fromGlobalID_toGlobalID_witness:
  "CHR '':'' \<notin> set ''Package'' \<and> CHR '':'' \<notin> set ''42''
   \<and> toGlobalID ''Package'' ''42'' = ''Package:42''
   \<and> fromGlobalID ''Package:42'' = Inr \<lparr>nodeType = ''Package'', id' = ''42''\<rparr>"
  using fromGlobalID_toGlobalID [of "''Package''" "''42''"]
  by (simp add: toGlobalID_eq)

text \<open>
  Claim C3, as stated: whenever the input holds the separator, the node type is the text
  before its first occurrence and the identifier is all the rest. The code does not do
  that for an input with two separators: \<^verbatim>\<open>strings.Split\<close> cuts \<^verbatim>\<open>"a:b:c"\<close> into three
  pieces, the test \<^verbatim>\<open>len(idSplit) == 2\<close> fails, and the other branch returns an empty
  node type with the first piece as the identifier.
\<close>

theorem fromGlobalID_first_separator_counterexample:
  "''a:b:c'' = ''a'' @ '':'' @ ''b:c''
   \<and> CHR '':'' \<notin> set ''a''
   \<and> Split ''a:b:c'' (CHR '':'') = [''a'', ''b'', ''c'']
   \<and> fromGlobalID ''a:b:c'' = Inr \<lparr>nodeType = '''', id' = ''a''\<rparr>
   \<and> fromGlobalID ''a:b:c'' \<noteq> Inr \<lparr>nodeType = ''a'', id' = ''b:c''\<rparr>"
  by (simp add: fromGlobalID_def Split_def CountByte_def index_at_def)

text \<open>
  Claim C3, amended: for every input that holds the separator \<^verbatim>\<open>":"\<close> exactly once,
  decoding returns the text before the separator as the node type and the text after it
  as the identifier.
\<close>

theorem fromGlobalID_one_separator:
  assumes "CountByte gID (CHR '':'') = 1"
  shows "fromGlobalID gID =
           Inr \<lparr>nodeType = takeWhile (\<lambda>x. x \<noteq> CHR '':'') gID,
                id' = drop 1 (dropWhile (\<lambda>x. x \<noteq> CHR '':'') gID)\<rparr>"
proof -
  let ?a = "takeWhile (\<lambda>x. x \<noteq> CHR '':'') gID"
  let ?b = "drop 1 (dropWhile (\<lambda>x. x \<noteq> CHR '':'') gID)"
  from assms have mem: "CHR '':'' \<in> set gID"
    using CountByte_zero_iff [of gID "CHR '':''"] by auto
  have g: "gID = ?a @ CHR '':'' # ?b" and a: "CHR '':'' \<notin> set ?a"
    using first_occurrence [OF mem] by blast+
  have "CountByte gID (CHR '':'') = Suc (CountByte ?b (CHR '':''))"
    using CountByte_first [OF a, of ?b] g by simp
  with assms have "CountByte ?b (CHR '':'') = 0" by simp
  then have b: "CHR '':'' \<notin> set ?b"
    by (simp add: CountByte_zero_iff)
  have "Split (?a @ CHR '':'' # ?b) (CHR '':'') = [?a, ?b]"
    using a b by (simp add: Split_first Split_absent)
  with g have "Split gID (CHR '':'') = [?a, ?b]" by simp
  then show ?thesis by (rule fromGlobalID_two)
qed

theorem fromGlobalID_one_separator_witness:
  "CountByte ''Package:42'' (CHR '':'') = 1
   \<and> fromGlobalID ''Package:42'' = Inr \<lparr>nodeType = ''Package'', id' = ''42''\<rparr>"
  using fromGlobalID_one_separator [of "''Package:42''"]
  by (simp add: CountByte_def)

text \<open>
  Claim C4. Decoding is total: for every input \<^verbatim>\<open>fromGlobalID\<close> returns a value (the
  index expressions \<^verbatim>\<open>idSplit[0]\<close> and \<^verbatim>\<open>idSplit[1]\<close> never panic, since
  \<^verbatim>\<open>strings.Split\<close> returns at least one piece). For an input without the separator the
  node type is empty and the identifier is the whole input, as for \<^verbatim>\<open>"plainID"\<close>.
\<close>

theorem fromGlobalID_total:
  "(\<exists>g. fromGlobalID gID = Inr g)
   \<and> (CHR '':'' \<notin> set gID \<longrightarrow> fromGlobalID gID = Inr \<lparr>nodeType = '''', id' = gID\<rparr>)
   \<and> fromGlobalID ''plainID'' = Inr \<lparr>nodeType = '''', id' = ''plainID''\<rparr>"
proof (intro conjI impI)
  show "\<exists>g. fromGlobalID gID = Inr g"
  proof (cases "length (Split gID (CHR '':'')) = 2")
    case True
    then obtain a b where "Split gID (CHR '':'') = [a, b]"
      by (auto simp: length_Suc_conv numeral_2_eq_2)
    then show ?thesis by (auto dest: fromGlobalID_two)
  next
    case False
    then show ?thesis by (auto dest: fromGlobalID_other)
  qed
next
  assume "CHR '':'' \<notin> set gID"
  then have "Split gID (CHR '':'') = [gID]" by (rule Split_absent)
  then show "fromGlobalID gID = Inr \<lparr>nodeType = '''', id' = gID\<rparr>"
    by (simp add: fromGlobalID_def index_at_def)
next
  show "fromGlobalID ''plainID'' = Inr \<lparr>nodeType = '''', id' = ''plainID''\<rparr>"
    by (simp add: fromGlobalID_def Split_def CountByte_def index_at_def)
qed

theorem fromGlobalID_total_witness:
  "CHR '':'' \<notin> set ''0195c2f1-legacy''
   \<and> fromGlobalID ''0195c2f1-legacy'' = Inr \<lparr>nodeType = '''', id' = ''0195c2f1-legacy''\<rparr>
   \<and> (\<exists>g. fromGlobalID '':'' = Inr g)"
  using fromGlobalID_total [of "''0195c2f1-legacy''"] fromGlobalID_total [of "'':''"]
  by simp

section \<open>The content-addressed identifier\<close>

lemma length_be_bytes: "length (be_bytes n w) = n"
  by (simp add: be_bytes_def)

lemma length_round256: "length s = 8 \<Longrightarrow> length (round256 s kw) = 8"
proof -
  assume "length s = 8"
  then obtain a b c d e f g h where "s = [a, b, c, d, e, f, g, h]"
    by (auto simp: length_Suc_conv eval_nat_numeral)
  then show ?thesis by (cases kw) (simp add: Let_def)
qed

lemma length_foldl_round256: "length s = 8 \<Longrightarrow> length (foldl round256 s kws) = 8"
  by (induction kws arbitrary: s) (simp_all add: length_round256)

lemma length_sha256_block: "length h = 8 \<Longrightarrow> length (sha256_block h p) = 8"
  by (simp add: sha256_block_def length_foldl_round256)

lemma length_sha256_blocks: "length h = 8 \<Longrightarrow> length (sha256_blocks n h p) = 8"
  by (induction n arbitrary: h p) (simp_all add: length_sha256_block)

lemma length_concat_be_bytes: "length (concat (map (be_bytes 4) ws)) = 4 * length ws"
  by (induction ws) (simp_all add: length_be_bytes)

text \<open>The digest has 32 bytes whatever was written, the empty input included.\<close>

lemma length_sha256_Sum: "length (sha256_Sum written) = 32"
proof -
  have "length sha256_init = 8" by (simp add: sha256_init_def)
  then show ?thesis
    by (simp add: sha256_Sum_def Let_def length_concat_be_bytes length_sha256_blocks)
qed

lemma length_copy16: "length (copy16 s) = 16"
  by (simp add: copy16_def)

text \<open>
  \<^verbatim>\<open>NewHash\<close> resets the hash before it writes: the identifier is made of the digest of
  the namespace followed by the data, and of nothing the hash held before.
\<close>

lemma NewHash_eq:
  "NewHash h space data version =
     (copy16 (sha256_Sum (space @ data)))
       [6 := (copy16 (sha256_Sum (space @ data)) ! 6 AND 0x0F)
               OR word_of_int (push_bit 4 (version AND 0xF)),
        8 := (copy16 (sha256_Sum (space @ data)) ! 8 AND 0x3F) OR 0x80]"
  by (simp add: NewHash_def Reset_def Write_def Sum_def Let_def)

text \<open>
  Claim C2. \<^verbatim>\<open>generateUUIDKey\<close> is a total, deterministic function of the bytes: for every
  byte sequence, the empty one included, it returns an identifier of 16 bytes (128 bits);
  the identifier depends on the bytes alone: the model reads no clock, no source of
  randomness and no state of the process, and two evaluations of \<^verbatim>\<open>uuid.NewHash\<close> on the
  same bytes agree whatever state their hashes were in before, so both give the identifier
  \<^verbatim>\<open>generateUUIDKey\<close> gives with its fresh hash. On the empty input it is the fixed
  identifier \<^verbatim>\<open>4ebc3bf9-4458-5d83-baae-f9d9dc2ad979\<close>.
\<close>

theorem generateUUIDKey_total_deterministic:
  "length (generateUUIDKey data) = 16
   \<and> (\<forall>h h'. NewHash h NameSpaceDNS data 5 = NewHash h' NameSpaceDNS data 5)
   \<and> (\<forall>h. NewHash h NameSpaceDNS data 5 = generateUUIDKey data)
   \<and> generateUUIDKey [] =
       [0x4E, 0xBC, 0x3B, 0xF9, 0x44, 0x58, 0x5D, 0x83,
        0xBA, 0xAE, 0xF9, 0xD9, 0xDC, 0x2A, 0xD9, 0x79]"
proof (intro conjI allI)
  show "length (generateUUIDKey data) = 16"
    by (simp add: generateUUIDKey_def NewHash_eq length_copy16)
  show "NewHash h NameSpaceDNS data 5 = NewHash h' NameSpaceDNS data 5" for h h'
    by (simp only: NewHash_eq)
  show "NewHash h NameSpaceDNS data 5 = generateUUIDKey data" for h
    by (simp only: generateUUIDKey_def NewHash_eq)
  show "generateUUIDKey [] =
       [0x4E, 0xBC, 0x3B, 0xF9, 0x44, 0x58, 0x5D, 0x83,
        0xBA, 0xAE, 0xF9, 0xD9, 0xDC, 0x2A, 0xD9, 0x79]"
    by code_simp
qed


section \<open>The node resolver\<close>

lemma deref_eval:
  "deref None = Inl NilPointerDereference"
  "deref (Some x) = Inr x"
  by (simp_all add: deref_def)

lemma and_then_eval:
  "and_then (Inl e) f = Inl e"
  "and_then (Inr x) f = f x"
  by (simp_all add: and_then_def)

lemma cond_and_eval:
  "cond_and (Inl e) b = Inl e"
  "cond_and (Inr True) b = b"
  "cond_and (Inr False) b = Inr False"
  by (simp_all add: cond_and_def)

lemma branch_eval:
  "branch (Inl e) a b = Inl e"
  "branch (Inr True) a b = a"
  "branch (Inr False) a b = b"
  by (simp_all add: branch_def)

lemma nonempty_eval:
  "nonempty (Inl e) = Inl e"
  "nonempty (Inr []) = Inr False"
  "nonempty (Inr (x # xs)) = Inr True"
  by (simp_all add: nonempty_def and_then_def)

lemma elem0_eval:
  "elem0 (Inl e) = Inl e"
  "elem0 (Inr []) = Inl IndexOutOfRange"
  "elem0 (Inr (None # xs)) = Inl NilPointerDereference"
  "elem0 (Inr (Some x # xs)) = Inr x"
  by (simp_all add: elem0_def and_then_def index_at_def deref_def)

lemmas go_simps = deref_eval and_then_eval cond_and_eval branch_eval nonempty_eval elem0_eval

subsection \<open>What each case returns\<close>

lemma getID_flat_Some: "getID_flat (Some e) = Inr (Entity_ID e, None)"
  by (simp add: getID_flat_def go_simps)

lemma getID_flat_None: "getID_flat None = Inl NilPointerDereference"
  by (simp add: getID_flat_def go_simps)

text \<open>A \<^verbatim>\<open>nil\<close> Package pointer fails the three guarded conditions and reaches
  \<^verbatim>\<open>return v.ID, nil\<close>.\<close>

lemma getID_Package_None: "getID_Package None = Inl NilPointerDereference"
  by (simp add: getID_Package_def go_simps)

lemma getID_Package_Some:
  "getID_Package (Some p) =
     (case Package_Namespaces p of
        [] \<Rightarrow> Inr (Package_ID p, None)
      | None # _ \<Rightarrow> Inl NilPointerDereference
      | Some ns # _ \<Rightarrow>
          (case PackageNamespace_Names ns of
             [] \<Rightarrow> Inr (PackageNamespace_ID ns, None)
           | None # _ \<Rightarrow> Inl NilPointerDereference
           | Some n # _ \<Rightarrow>
               (case PackageName_Versions n of
                  [] \<Rightarrow> Inr (PackageName_ID n, None)
                | None # _ \<Rightarrow> Inl NilPointerDereference
                | Some x # _ \<Rightarrow> Inr (PackageVersion_ID x, None))))"
  by (simp add: getID_Package_def Namespaces_of_def Names_of_def Versions_of_def go_simps
      split: list.split option.split)

lemma getID_Source_None: "getID_Source None = Inl NilPointerDereference"
  by (simp add: getID_Source_def go_simps)

lemma getID_Source_Some:
  "getID_Source (Some p) =
     (case Source_Namespaces p of
        [] \<Rightarrow> Inr (Source_ID p, None)
      | None # _ \<Rightarrow> Inl NilPointerDereference
      | Some ns # _ \<Rightarrow>
          (case SourceNamespace_Names ns of
             [] \<Rightarrow> Inr (SourceNamespace_ID ns, None)
           | None # _ \<Rightarrow> Inl NilPointerDereference
           | Some n # _ \<Rightarrow> Inr (SourceName_ID n, None)))"
  by (simp add: getID_Source_def SrcNamespaces_of_def SrcNames_of_def go_simps
      split: list.split option.split)

lemma getID_Vulnerability_None: "getID_Vulnerability None = Inl NilPointerDereference"
  by (simp add: getID_Vulnerability_def VulnerabilityIDs_of_def go_simps)

lemma getID_Vulnerability_Some:
  "getID_Vulnerability (Some p) =
     (case Vulnerability_VulnerabilityIDs p of
        [] \<Rightarrow> Inr (Vulnerability_ID p, None)
      | None # _ \<Rightarrow> Inl NilPointerDereference
      | Some x # _ \<Rightarrow> Inr (VulnerabilityID_ID x, None))"
  by (simp add: getID_Vulnerability_def VulnerabilityIDs_of_def go_simps
      split: list.split option.split)

subsection \<open>Package nodes\<close>

text \<open>
  Claim C5, as stated: whenever a Version is present beneath a Name beneath a Namespace of
  a Package, the resolver returns that Version's identifier. The code looks at index 0 of
  each collection only. In the Package below, the Version \<open>V1\<close> is present beneath the
  Name \<open>N1\<close> beneath the Namespace \<open>NS1\<close>, but the first Namespace, \<open>NS0\<close>, has no Name:
  the first two conditions fail on \<^verbatim>\<open>len(v.Namespaces[0].Names) > 0\<close>, the third holds,
  and the identifier returned is that of \<open>NS0\<close>.
\<close>

theorem getIDfromNode_Package_counterexample:
  "getIDfromNode (Package_ptr (Some
     \<lparr>Package_ID = ''P1'',
      Package_Namespaces =
        [Some \<lparr>PackageNamespace_ID = ''NS0'', PackageNamespace_Names = []\<rparr>,
         Some \<lparr>PackageNamespace_ID = ''NS1'',
               PackageNamespace_Names =
                 [Some \<lparr>PackageName_ID = ''N1'',
                        PackageName_Versions = [Some \<lparr>PackageVersion_ID = ''V1''\<rparr>]\<rparr>]\<rparr>]\<rparr>))
     = Inr (''NS0'', None)
   \<and> Inr (''NS0'', None) \<noteq> (Inr (''V1'', None) :: panic + id_or_error)"
  by (simp add: getID_Package_Some)

text \<open>
  Claim C5, amended: for every Package node, only the first element of each collection
  counts. If the first Namespace has a first Name that has a first Version, the resolver
  returns that first Version's identifier; otherwise, if the first Namespace has a first
  Name (with no Version), it returns that Name's identifier; otherwise, if there is a first
  Namespace (with no Name), it returns that Namespace's identifier; otherwise (no
  Namespace) it returns the Package's own identifier. (The elements named are records, not
  \<^verbatim>\<open>nil\<close> pointers.)
\<close>

theorem getIDfromNode_Package_first_elements:
  "(Package_Namespaces p = Some ns # nss \<and> PackageNamespace_Names ns = Some n # nms
      \<and> PackageName_Versions n = Some x # xs
      \<longrightarrow> getIDfromNode (Package_ptr (Some p)) = Inr (PackageVersion_ID x, None))
   \<and> (Package_Namespaces p = Some ns # nss \<and> PackageNamespace_Names ns = Some n # nms
      \<and> PackageName_Versions n = []
      \<longrightarrow> getIDfromNode (Package_ptr (Some p)) = Inr (PackageName_ID n, None))
   \<and> (Package_Namespaces p = Some ns # nss \<and> PackageNamespace_Names ns = []
      \<longrightarrow> getIDfromNode (Package_ptr (Some p)) = Inr (PackageNamespace_ID ns, None))
   \<and> (Package_Namespaces p = []
      \<longrightarrow> getIDfromNode (Package_ptr (Some p)) = Inr (Package_ID p, None))"
  by (simp add: getID_Package_Some)

text \<open>The example of the spec: the chain \<open>P1\<close>, \<open>NS1\<close>, \<open>N1\<close>, \<open>V1\<close>, and the
  chains left when the Version, then the Name, then the Namespace are removed.\<close>

theorem getIDfromNode_Package_first_elements_witness:
  "getIDfromNode (Package_ptr (Some
     \<lparr>Package_ID = ''P1'',
      Package_Namespaces =
        [Some \<lparr>PackageNamespace_ID = ''NS1'',
               PackageNamespace_Names =
                 [Some \<lparr>PackageName_ID = ''N1'',
                        PackageName_Versions = [Some \<lparr>PackageVersion_ID = ''V1''\<rparr>]\<rparr>]\<rparr>]\<rparr>))
     = Inr (''V1'', None)
   \<and> getIDfromNode (Package_ptr (Some
     \<lparr>Package_ID = ''P1'',
      Package_Namespaces =
        [Some \<lparr>PackageNamespace_ID = ''NS1'',
               PackageNamespace_Names =
                 [Some \<lparr>PackageName_ID = ''N1'', PackageName_Versions = []\<rparr>]\<rparr>]\<rparr>))
     = Inr (''N1'', None)
   \<and> getIDfromNode (Package_ptr (Some
     \<lparr>Package_ID = ''P1'',
      Package_Namespaces =
        [Some \<lparr>PackageNamespace_ID = ''NS1'', PackageNamespace_Names = []\<rparr>]\<rparr>))
     = Inr (''NS1'', None)
   \<and> getIDfromNode (Package_ptr (Some \<lparr>Package_ID = ''P1'', Package_Namespaces = []\<rparr>))
     = Inr (''P1'', None)"
  using
    getIDfromNode_Package_first_elements
      [of "\<lparr>Package_ID = ''P1'',
            Package_Namespaces =
              [Some \<lparr>PackageNamespace_ID = ''NS1'',
                     PackageNamespace_Names =
                       [Some \<lparr>PackageName_ID = ''N1'',
                              PackageName_Versions = [Some \<lparr>PackageVersion_ID = ''V1''\<rparr>]\<rparr>]\<rparr>]\<rparr>"
          "\<lparr>PackageNamespace_ID = ''NS1'',
            PackageNamespace_Names =
              [Some \<lparr>PackageName_ID = ''N1'',
                     PackageName_Versions = [Some \<lparr>PackageVersion_ID = ''V1''\<rparr>]\<rparr>]\<rparr>"
          "[]"
          "\<lparr>PackageName_ID = ''N1'', PackageName_Versions = [Some \<lparr>PackageVersion_ID = ''V1''\<rparr>]\<rparr>"
          "[]" "\<lparr>PackageVersion_ID = ''V1''\<rparr>" "[]"]
    getIDfromNode_Package_first_elements
      [of "\<lparr>Package_ID = ''P1'',
            Package_Namespaces =
              [Some \<lparr>PackageNamespace_ID = ''NS1'',
                     PackageNamespace_Names =
                       [Some \<lparr>PackageName_ID = ''N1'', PackageName_Versions = []\<rparr>]\<rparr>]\<rparr>"
          "\<lparr>PackageNamespace_ID = ''NS1'',
            PackageNamespace_Names = [Some \<lparr>PackageName_ID = ''N1'', PackageName_Versions = []\<rparr>]\<rparr>"
          "[]" "\<lparr>PackageName_ID = ''N1'', PackageName_Versions = []\<rparr>" "[]"]
    getIDfromNode_Package_first_elements
      [of "\<lparr>Package_ID = ''P1'',
            Package_Namespaces =
              [Some \<lparr>PackageNamespace_ID = ''NS1'', PackageNamespace_Names = []\<rparr>]\<rparr>"
          "\<lparr>PackageNamespace_ID = ''NS1'', PackageNamespace_Names = []\<rparr>" "[]"]
    getIDfromNode_Package_first_elements
      [of "\<lparr>Package_ID = ''P1'', Package_Namespaces = []\<rparr>"]
  by simp

subsection \<open>Vulnerability nodes\<close>

text \<open>
  Claim C6. For every Vulnerability node: if its list of VulnerabilityID records is not
  empty, the resolver returns the identifier of the first record of the list; if the list
  is empty, it returns the Vulnerability's own identifier.
\<close>

theorem getIDfromNode_Vulnerability:
  "(Vulnerability_VulnerabilityIDs v = Some r # rest
      \<longrightarrow> getIDfromNode (Vulnerability_ptr (Some v)) = Inr (VulnerabilityID_ID r, None))
   \<and> (Vulnerability_VulnerabilityIDs v = []
      \<longrightarrow> getIDfromNode (Vulnerability_ptr (Some v)) = Inr (Vulnerability_ID v, None))"
  by (simp add: getID_Vulnerability_Some)

theorem getIDfromNode_Vulnerability_witness:
  "getIDfromNode (Vulnerability_ptr (Some
     \<lparr>Vulnerability_ID = ''VULN'',
      Vulnerability_VulnerabilityIDs =
        [Some \<lparr>VulnerabilityID_ID = ''VID1''\<rparr>, Some \<lparr>VulnerabilityID_ID = ''VID2''\<rparr>]\<rparr>))
     = Inr (''VID1'', None)
   \<and> getIDfromNode (Vulnerability_ptr (Some
     \<lparr>Vulnerability_ID = ''VULN'', Vulnerability_VulnerabilityIDs = []\<rparr>))
     = Inr (''VULN'', None)"
  using
    getIDfromNode_Vulnerability
      [of "\<lparr>Vulnerability_ID = ''VULN'',
            Vulnerability_VulnerabilityIDs =
              [Some \<lparr>VulnerabilityID_ID = ''VID1''\<rparr>, Some \<lparr>VulnerabilityID_ID = ''VID2''\<rparr>]\<rparr>"
          "\<lparr>VulnerabilityID_ID = ''VID1''\<rparr>" "[Some \<lparr>VulnerabilityID_ID = ''VID2''\<rparr>]"]
    getIDfromNode_Vulnerability
      [of "\<lparr>Vulnerability_ID = ''VULN'', Vulnerability_VulnerabilityIDs = []\<rparr>"]
  by simp

subsection \<open>Panics and errors\<close>

lemma getID_Package_valid: "valid_Package v \<Longrightarrow> \<exists>i. getID_Package v = Inr (i, None)"
  by (cases v)
    (auto simp: valid_Package_def getID_Package_Some split: list.splits option.splits)

lemma getID_Source_valid: "valid_Source v \<Longrightarrow> \<exists>i. getID_Source v = Inr (i, None)"
  by (cases v)
    (auto simp: valid_Source_def getID_Source_Some split: list.splits option.splits)

lemma getID_Vulnerability_valid:
  "valid_Vulnerability v \<Longrightarrow> \<exists>i. getID_Vulnerability v = Inr (i, None)"
  by (cases v)
    (auto simp: valid_Vulnerability_def getID_Vulnerability_Some
      split: list.splits option.splits)

lemma getID_flat_valid: "v \<noteq> None \<Longrightarrow> \<exists>i. getID_flat v = Inr (i, None)"
  by (cases v) (auto simp: getID_flat_Some)

lemma getID_Package_invalid:
  "\<not> valid_Package v \<Longrightarrow> getID_Package v = Inl NilPointerDereference"
  by (cases v)
    (auto simp: valid_Package_def getID_Package_Some getID_Package_None
      split: list.splits option.splits)

lemma getID_Source_invalid:
  "\<not> valid_Source v \<Longrightarrow> getID_Source v = Inl NilPointerDereference"
  by (cases v)
    (auto simp: valid_Source_def getID_Source_Some getID_Source_None
      split: list.splits option.splits)

lemma getID_Vulnerability_invalid:
  "\<not> valid_Vulnerability v \<Longrightarrow> getID_Vulnerability v = Inl NilPointerDereference"
  by (cases v)
    (auto simp: valid_Vulnerability_def getID_Vulnerability_Some getID_Vulnerability_None
      split: list.splits option.splits)

text \<open>
  Claim C7, as stated: no input makes \<^verbatim>\<open>getIDfromNode\<close> panic, a \<^verbatim>\<open>nil\<close> pointer of a
  known variant type included. The cases with a flat identifier are
  \<^verbatim>\<open>return v.ID, nil\<close> with no test of \<open>v\<close>: for a \<^verbatim>\<open>nil\<close> \<^verbatim>\<open>*model.Artifact\<close> the field
  selection panics.
\<close>

theorem getIDfromNode_nil_pointer_counterexample:
  "getIDfromNode (Artifact_ptr None) = Inl NilPointerDereference"
  by (simp add: getID_flat_None)

text \<open>
  Claim C7, amended: for every input whose pointers are not \<^verbatim>\<open>nil\<close> (the pointer of the
  node and the first elements the resolver follows), \<^verbatim>\<open>getIDfromNode\<close> returns and does not
  panic: for a known variant it returns an identifier and no error; for a value of any
  other dynamic type, and for the \<^verbatim>\<open>nil\<close> interface value, it returns the empty string
  together with the error \<^verbatim>\<open>unknown type: \<close> followed by the value as \<^verbatim>\<open>%v\<close> prints it,
  never an identifier without an error.
\<close>

theorem getIDfromNode_no_panic:
  "(pointers_valid node \<longrightarrow> (\<exists>res. getIDfromNode node = Inr res))
   \<and> (pointers_valid node \<and> known_variant node
        \<longrightarrow> (\<exists>i. getIDfromNode node = Inr (i, None)))
   \<and> (\<not> known_variant node
        \<longrightarrow> (\<exists>rendered. getIDfromNode node = Inr ('''', Some (''unknown type: '' @ rendered))))
   \<and> getIDfromNode NilNode = Inr ('''', Some ''unknown type: <nil>'')
   \<and> getIDfromNode (Unregistered rendered') = Inr ('''', Some (''unknown type: '' @ rendered'))"
proof (intro conjI impI)
  show known: "\<exists>i. getIDfromNode node = Inr (i, None)"
    if "pointers_valid node \<and> known_variant node"
    using that
    by (cases node)
      (simp_all add: known_variant_def getID_Package_valid getID_Source_valid
        getID_Vulnerability_valid getID_flat_valid)
  show unknown: "\<exists>rendered. getIDfromNode node = Inr ('''', Some (''unknown type: '' @ rendered))"
    if "\<not> known_variant node"
    using that by (cases node) (simp_all add: known_variant_def Errorf_unknown_type_def)
  show "\<exists>res. getIDfromNode node = Inr res" if "pointers_valid node"
  proof (cases "known_variant node")
    case True
    with that known show ?thesis by blast
  next
    case False
    with unknown show ?thesis by blast
  qed
  show "getIDfromNode NilNode = Inr ('''', Some ''unknown type: <nil>'')"
    by (simp add: Errorf_unknown_type_def)
  show "getIDfromNode (Unregistered rendered') = Inr ('''', Some (''unknown type: '' @ rendered'))"
    by (simp add: Errorf_unknown_type_def)
qed

theorem getIDfromNode_no_panic_witness:
  "pointers_valid (Artifact_ptr (Some \<lparr>Entity_ID = ''A1''\<rparr>))
   \<and> known_variant (Artifact_ptr (Some \<lparr>Entity_ID = ''A1''\<rparr>))
   \<and> getIDfromNode (Artifact_ptr (Some \<lparr>Entity_ID = ''A1''\<rparr>)) = Inr (''A1'', None)
   \<and> pointers_valid (Unregistered ''{7}'') \<and> \<not> known_variant (Unregistered ''{7}'')
   \<and> getIDfromNode (Unregistered ''{7}'') = Inr ('''', Some ''unknown type: {7}'')"
  using getIDfromNode_no_panic [of "Artifact_ptr (Some \<lparr>Entity_ID = ''A1''\<rparr>)" "''{7}''"]
    getIDfromNode_no_panic [of "Unregistered ''{7}''" "''{7}''"]
  by (simp add: known_variant_def getID_flat_Some)

text \<open>The condition is the weakest one: when a pointer on the way is \<^verbatim>\<open>nil\<close>, the
  field selection panics.\<close>

lemma getIDfromNode_panics:
  assumes "\<not> pointers_valid node"
  shows "getIDfromNode node = Inl NilPointerDereference"
  using assms
  by (cases node)
    (simp_all add: getID_Package_invalid getID_Source_invalid getID_Vulnerability_invalid
      getID_flat_None)


section \<open>The predicate helper\<close>

text \<open>
  Claim C10. For an absent value \<^verbatim>\<open>optionalPredicate\<close> returns the no-op predicate and
  does not call the builder: the state is the one before the call, and the result is the
  same for every builder. The no-op predicate imposes no constraint: it leaves every
  selector as it was. For a present value the result is that of the builder applied to
  the value.
\<close>

theorem optionalPredicate_spec:
  "optionalPredicate None fn w = (NoOpSelector, w)
   \<and> (\<forall>fn'. optionalPredicate None fn' w = optionalPredicate None fn w)
   \<and> (\<forall>s. fst (optionalPredicate None fn w) s = s)
   \<and> optionalPredicate (Some v) fn w = fn v w"
  by (simp add: optionalPredicate_def NoOpSelector_def)


section \<open>The batching helper\<close>

subsection \<open>Arithmetic of the loop\<close>





lemma chunks_num_lower:
  assumes "0 < s"
  shows "(chunks_num n s - 1) * s < n"
proof -
  have d: "n = n div s * s + n mod s" by simp
  have m: "0 \<le> n mod s" using assms by simp
  show ?thesis
  proof (cases "n mod s = 0")
    case True
    have "(n div s - 1) * s = n div s * s - s" by (simp add: algebra_simps)
    with d True assms show ?thesis by (simp add: chunks_num_def)
  next
    case False
    with m have "0 < n mod s" by simp
    with d have "n div s * s < n" by linarith
    then show ?thesis using False by (simp add: chunks_num_def)
  qed
qed



text \<open>
  No product of the loop leaves the 64-bit range when the slice has at most \<open>2\<^sup>6\<^sup>2\<close>
  elements: with one group the largest product is the size itself, and with more the
  size is below the length, so the largest product is below twice the length.
\<close>

lemma chunks_num_mult_bound:
  assumes "0 \<le> n" "n \<le> 2 ^ 62" "0 < s" "s < 2 ^ 63"
  shows "chunks_num n s * s < 2 ^ 63"
proof (cases "chunks_num n s \<le> 1")
  case True
  have "chunks_num n s * s \<le> 1 * s"
    using True assms(3) by (intro mult_right_mono) auto
  then have "chunks_num n s * s \<le> s" by simp
  with assms(4) show ?thesis by linarith
next
  case False
  have l: "(chunks_num n s - 1) * s < n" using assms(3) by (rule chunks_num_lower)
  have "1 * s \<le> (chunks_num n s - 1) * s"
    using False assms(3) by (intro mult_right_mono) auto
  then have "s \<le> (chunks_num n s - 1) * s" by simp
  with l have "s < n" by linarith
  moreover have "chunks_num n s * s = (chunks_num n s - 1) * s + s"
    by (simp add: algebra_simps)
  ultimately have "chunks_num n s * s < 2 * n" using l by linarith
  moreover have "2 * n \<le> 2 ^ 63" using assms(2) by simp
  ultimately show ?thesis by linarith
qed


subsection \<open>The loop\<close>





text \<open>The only panic the loop can raise is that of the slice expression.\<close>

lemma slice_panic: "slice xs lo hi = Inl e \<Longrightarrow> e = SliceBoundsOutOfRange"
  by (auto simp: slice_def split: if_splits)

lemma chunk_loop_panic:
  "chunk_loop xs s cn i acc = Inl e \<Longrightarrow> e = SliceBoundsOutOfRange"
proof (induction xs s cn i acc rule: chunk_loop.induct)
  case (1 collection size' chunksNum i result)
  let ?hi = "wrap64 ((i + 1) * size')"
  let ?last = "if ?hi > int (length collection) then int (length collection) else ?hi"
  from "1.prems" have lt: "i < chunksNum"
    by (subst (asm) chunk_loop.simps) (simp split: if_splits)
  show ?case
  proof (cases "slice collection (wrap64 (i * size')) ?last")
    case (Inl p)
    with "1.prems" lt have "e = p"
      by (subst (asm) chunk_loop.simps) (simp add: Let_def)
    with Inl show ?thesis by (auto dest: slice_panic)
  next
    case (Inr c)
    with "1.prems" lt
    have "chunk_loop collection size' chunksNum (i + 1) (result @ [c]) = Inl e"
      by (subst (asm) chunk_loop.simps) (simp add: Let_def)
    with lt Inr show ?thesis
      by (intro "1.IH" [of ?hi ?last c]) auto
  qed
qed

subsection \<open>The groups\<close>





text \<open>
  With at most \<open>2\<^sup>6\<^sup>2\<close> elements and a size that is a Go \<^verbatim>\<open>int\<close>, the number of
  groups times the size is below \<open>2\<^sup>6\<^sup>3\<close>: the condition of the theorem below holds
  of every slice whose elements occupy memory.
\<close>

lemma no_overflow_up_to_2_62:
  assumes "0 < s" "s < 2 ^ 63" "int (length xs) \<le> 2 ^ 62"
  shows "chunks_num (int (length xs)) s * s < 2 ^ 63"
  using assms by (intro chunks_num_mult_bound) auto





text \<open>
  Claim C9. For every sequence, the empty one included, and every size that is not
  positive, \<^verbatim>\<open>chunk\<close> panics with its message and returns nothing; for a positive size the
  result is never that panic: the branch is not reached.
\<close>

theorem chunk_size_check:
  "(size' \<le> 0 \<longrightarrow>
      chunk collection size' = Inl (PanicValue ''Second parameter must be greater than 0''))
   \<and> (0 < size' \<longrightarrow>
      chunk collection size' \<noteq> Inl (PanicValue ''Second parameter must be greater than 0''))"
proof (intro conjI impI)
  assume "size' \<le> 0"
  then show "chunk collection size' = Inl (PanicValue ''Second parameter must be greater than 0'')"
    by (simp add: chunk_def)
next
  assume pos: "0 < size'"
  show "chunk collection size' \<noteq> Inl (PanicValue ''Second parameter must be greater than 0'')"
  proof
    assume "chunk collection size' = Inl (PanicValue ''Second parameter must be greater than 0'')"
    with pos obtain cn where
      "chunk_loop collection size' cn 0 []
         = Inl (PanicValue ''Second parameter must be greater than 0'')"
      by (auto simp: chunk_def Let_def split: if_splits)
    then have "PanicValue ''Second parameter must be greater than 0'' = SliceBoundsOutOfRange"
      by (rule chunk_loop_panic)
    then show False by simp
  qed
qed

theorem chunk_size_check_witness:
  "chunk ([] :: int list) 0 = Inl (PanicValue ''Second parameter must be greater than 0'')
   \<and> chunk [1, 2, 3 :: int] (- 2) = Inl (PanicValue ''Second parameter must be greater than 0'')
   \<and> chunk [1, 2, 3 :: int] 2 = Inr [[1, 2], [3]]"
  using chunk_size_check [of 0 "[] :: int list"] chunk_size_check [of "- 2" "[1, 2, 3 :: int]"]
    chunk_size_check [of 2 "[1, 2, 3 :: int]"]
  by (simp add: chunk_def chunk_loop.simps wrap64_def slice_def
        signed_divide_int_def signed_modulo_int_def)


end
